theory Spec2Isabelle
  imports Complex_Main
begin

section \<open>Medication dose-schedule projection\<close>

text \<open>
  A shallow embedding of the schedule projector \<open>getMedicationSchedule\<close> of the
  medication timeline component, and of its two earlier copies.

  Conventions of the embedding.
  \<^item> The numeric fields the projector computes with (\<open>frequency\<close>, \<open>period\<close>,
    \<open>duration\<close>, ...) are integers; an optional field is an \<open>option\<close>. The quotients
    handed to \<open>Math.round\<close> are exact rationals.
  \<^item> A \<open>Date\<close> is its \<open>getTime()\<close> value, milliseconds since the epoch, read in a
    local time zone without offset or daylight saving.
  \<^item> \<open>null\<close> is \<open>None\<close>; the projector raises no exception.
\<close>

subsection \<open>JavaScript primitives\<close>

text \<open>\<open>x || d\<close> on an optional number: \<open>undefined\<close> and \<open>0\<close> are falsy.\<close>

definition orNum :: "int option \<Rightarrow> int \<Rightarrow> int" where
  "orNum x d = (case x of None \<Rightarrow> d | Some v \<Rightarrow> if v = 0 then d else v)"

text \<open>\<open>x || d\<close> on an optional string: \<open>undefined\<close> and the empty string are falsy.\<close>

definition orStr :: "string option \<Rightarrow> string \<Rightarrow> string" where
  "orStr x d = (case x of None \<Rightarrow> d | Some v \<Rightarrow> if v = [] then d else v)"

text \<open>\<open>xs && xs.length > 0\<close> on an optional array.\<close>

definition nonEmpty :: "'a list option \<Rightarrow> bool" where
  "nonEmpty x = (case x of None \<Rightarrow> False | Some xs \<Rightarrow> xs \<noteq> [])"

text \<open>The remainder operator \<open>%\<close>: the result takes the sign of the dividend.\<close>

definition js_rem :: "int \<Rightarrow> int \<Rightarrow> int" where
  "js_rem a b = sgn a * (\<bar>a\<bar> mod \<bar>b\<bar>)"

text \<open>\<open>Math.round\<close>: the nearest integer, a tie going up.\<close>

definition Math_round :: "rat \<Rightarrow> int" where
  "Math_round x = \<lfloor>x + 1 / 2\<rfloor>"

text \<open>\<open>toLowerCase\<close>, on the ASCII letters.\<close>

definition lowerChar :: "char \<Rightarrow> char" where
  "lowerChar c =
     (case List.find (\<lambda>p. fst p = c) (zip ''ABCDEFGHIJKLMNOPQRSTUVWXYZ'' ''abcdefghijklmnopqrstuvwxyz'') of
        None \<Rightarrow> c
      | Some p \<Rightarrow> snd p)"

definition toLowerCase :: "string \<Rightarrow> string" where
  "toLowerCase s = map lowerChar s"

definition startsWith :: "string \<Rightarrow> string \<Rightarrow> bool" where
  "startsWith s p = (take (length p) s = p)"

fun includes_str :: "string \<Rightarrow> string \<Rightarrow> bool" where
  "includes_str [] sub = (sub = [])"
| "includes_str (c # s) sub = (startsWith (c # s) sub \<or> includes_str s sub)"

text \<open>\<open>String(n)\<close> for an integer and \<open>padStart(2, '0')\<close>.\<close>

fun digitsOf :: "nat \<Rightarrow> string" where
  "digitsOf n =
     (if n < 10 then [''0123456789'' ! n]
      else digitsOf (n div 10) @ [''0123456789'' ! (n mod 10)])"

declare digitsOf.simps [simp del]

definition String_num :: "int \<Rightarrow> string" where
  "String_num h = (if h < 0 then CHR ''-'' # digitsOf (nat (- h)) else digitsOf (nat h))"

definition padStart2 :: "string \<Rightarrow> string" where
  "padStart2 s = replicate (2 - length s) CHR ''0'' @ s"

subsection \<open>Dates\<close>

type_synonym Date = int

definition msPerDay :: int where
  "msPerDay = 1000 * 60 * 60 * 24"

text \<open>\<open>setHours(0, 0, 0, 0)\<close>.\<close>

definition setHoursZero :: "Date \<Rightarrow> Date" where
  "setHoursZero d = d - d mod msPerDay"

text \<open>\<open>getDay()\<close>: 0 is Sunday; the epoch was a Thursday.\<close>

definition getDay :: "Date \<Rightarrow> int" where
  "getDay d = (d div msPerDay + 4) mod 7"

text \<open>\<open>Math.floor((date.getTime() - startDate.getTime()) / (1000 * 60 * 60 * 24))\<close>.\<close>

definition daysDiffOf :: "Date \<Rightarrow> Date \<Rightarrow> int" where
  "daysDiffOf startDate date = (date - startDate) div msPerDay"

subsection \<open>Data model (types.ts)\<close>

record Strength =
  amount :: rat
  unit_of :: string

record Timing =
  orderInSequence :: "int option"
  doseAmount :: rat
  doseUnit :: "string option"
  frequency :: "int option"
  frequencyMax :: "int option"
  period :: "int option"
  periodMax :: "int option"
  periodUnit :: "string option"
  duration :: "int option"
  durationUnit :: "string option"
  count_of :: "int option"
  isAsNeeded :: bool
  specificTimes :: "string list option"
  timeCategories :: "string list option"
  weekdays :: "string list option"
  rawText :: "string option"

record MedicationStatement =
  medication :: string
  brandName :: "string option"
  genericName :: "string option"
  rxnormCode :: string
  form :: "string option"
  timingSequence :: "Timing list"
  strength :: Strength
  sourceText :: string

datatype Source = Explicit | Calculated

text \<open>
  \<open>MedicationSchedule\<close>. Its fields carry the prefix \<open>s_\<close>, since several share their
  name with a field of \<open>Timing\<close>.
\<close>

record MedicationSchedule =
  s_asNeeded :: "bool option"
  s_max :: "int option"
  s_times :: "string list option"
  s_doseAmount :: rat
  s_doseUnit :: "string option"
  s_source :: "Source option"
  s_explicitWeekdays :: "string list option"
  s_timeCategories :: "string list option"

subsection \<open>The projector (MedicationCard.tsx, lines 1299-1583)\<close>

text \<open>The loop of \<open>timesForFrequency\<close> for more than four doses.\<close>

function timesLoop :: "int \<Rightarrow> rat \<Rightarrow> int \<Rightarrow> string list \<Rightarrow> string list" where
  "timesLoop frequency' step i times' =
     (if i < frequency' then
        (let h = Math_round (8 + step * of_int i);
             hh = padStart2 (String_num h)
         in timesLoop frequency' step (i + 1) (times' @ [hh @ '':00'']))
      else times')"
  by pat_completeness auto
termination
  by (relation "measure (\<lambda>(frequency', step, i, times'). nat (frequency' - i))") auto

declare timesLoop.simps [simp del]

definition timesForFrequency :: "int \<Rightarrow> string list" where
  "timesForFrequency frequency' =
     (if frequency' \<le> 0 then []
      else if frequency' = 1 then [''08:00'']
      else if frequency' = 2 then [''08:00'', ''20:00'']
      else if frequency' = 3 then [''08:00'', ''14:00'', ''20:00'']
      else if frequency' = 4 then [''08:00'', ''12:00'', ''16:00'', ''20:00'']
      else (let startHour = 8; endHour = 20; span = endHour - startHour;
                step = of_int span / of_int (frequency' - 1)
            in timesLoop frequency' step 0 []))"

definition weekdayNames :: "string list" where
  "weekdayNames = [''sunday'', ''monday'', ''tuesday'', ''wednesday'', ''thursday'',
     ''friday'', ''saturday'']"

text \<open>\<open>lowered.includes(wdName)\<close> for \<open>wdName = weekdayNames[date.getDay()]\<close>.\<close>

definition weekdayListed :: "Date \<Rightarrow> string list \<Rightarrow> bool" where
  "weekdayListed date wds =
     (let wdName = weekdayNames ! nat (getDay date);
          lowered = map toLowerCase wds
      in wdName \<in> set lowered)"

definition categoryToTime :: "string \<Rightarrow> string option" where
  "categoryToTime cat =
     (let c = toLowerCase cat in
      if includes_str c ''morn'' then Some ''08:00''
      else if includes_str c ''noon'' \<or> includes_str c ''afternoon'' then Some ''14:00''
      else if includes_str c ''even'' \<or> includes_str c ''night'' then Some ''20:00''
      else if includes_str c ''bed'' \<or> includes_str c ''bedtime'' then Some ''22:00''
      else None)"

text \<open>\<open>timing.timeCategories.map(categoryToTime).filter((t) => !!t)\<close>.\<close>

definition mappedCategories :: "string list \<Rightarrow> string list" where
  "mappedCategories cats =
     concat (map (\<lambda>r. case r of None \<Rightarrow> [] | Some t \<Rightarrow> if t = [] then [] else [t])
               (map categoryToTime cats))"

text \<open>Lines 1366-1434: the phase has explicit \<open>specificTimes\<close>.\<close>

definition explicitSchedule ::
  "int \<Rightarrow> Date \<Rightarrow> int \<Rightarrow> Timing \<Rightarrow> string list \<Rightarrow> MedicationSchedule option" where
  "explicitSchedule daysDiff date runningOffsetDays timing sts =
     (if nonEmpty (weekdays timing) then
        (if \<not> weekdayListed date (the (weekdays timing)) then None
         else Some \<lparr>s_asNeeded = None, s_max = None, s_times = Some sts,
                s_doseAmount = doseAmount timing, s_doseUnit = doseUnit timing,
                s_source = Some Explicit, s_explicitWeekdays = weekdays timing,
                s_timeCategories = timeCategories timing\<rparr>)
      else
        (let period' = orNum (period timing) 1;
             periodUnit' = toLowerCase (orStr (periodUnit timing) ''day'')
         in if startsWith periodUnit' ''day'' then
              (let offsetDayIndex = daysDiff - runningOffsetDays in
               if offsetDayIndex < 0 then None
               else let everyN = max 1 period' in
                 if js_rem offsetDayIndex everyN \<noteq> 0 then None
                 else Some \<lparr>s_asNeeded = None, s_max = None, s_times = Some sts,
                        s_doseAmount = doseAmount timing, s_doseUnit = doseUnit timing,
                        s_source = Some Explicit, s_explicitWeekdays = None,
                        s_timeCategories = timeCategories timing\<rparr>)
            else if startsWith periodUnit' ''week'' then
              (let daysSinceOffset = daysDiff - runningOffsetDays in
               if daysSinceOffset < 0 then None
               else let weekIndex = daysSinceOffset div 7;
                        everyNWeeks = max 1 period' in
                 if js_rem weekIndex everyNWeeks \<noteq> 0 then None
                 else Some \<lparr>s_asNeeded = None, s_max = None, s_times = Some sts,
                        s_doseAmount = doseAmount timing, s_doseUnit = doseUnit timing,
                        s_source = Some Explicit, s_explicitWeekdays = None,
                        s_timeCategories = timeCategories timing\<rparr>)
            else Some \<lparr>s_asNeeded = None, s_max = None, s_times = Some sts,
                   s_doseAmount = doseAmount timing, s_doseUnit = doseUnit timing,
                   s_source = Some Explicit, s_explicitWeekdays = None,
                   s_timeCategories = None\<rparr>))"

text \<open>Lines 1452-1514: the time categories map to at least one clock time.\<close>

definition categorySchedule ::
  "int \<Rightarrow> Date \<Rightarrow> int \<Rightarrow> Timing \<Rightarrow> string list \<Rightarrow> MedicationSchedule option" where
  "categorySchedule daysDiff date runningOffsetDays timing mapped =
     (if nonEmpty (weekdays timing) then
        (if \<not> weekdayListed date (the (weekdays timing)) then None
         else Some \<lparr>s_asNeeded = None, s_max = None, s_times = Some mapped,
                s_doseAmount = doseAmount timing, s_doseUnit = doseUnit timing,
                s_source = Some Explicit, s_explicitWeekdays = weekdays timing,
                s_timeCategories = timeCategories timing\<rparr>)
      else
        (let period' = orNum (period timing) 1;
             periodUnit' = toLowerCase (orStr (periodUnit timing) ''day'')
         in if startsWith periodUnit' ''day'' then
              (let offsetDayIndex = daysDiff - runningOffsetDays in
               if offsetDayIndex < 0 then None
               else let everyN = max 1 period' in
                 if js_rem offsetDayIndex everyN \<noteq> 0 then None
                 else Some \<lparr>s_asNeeded = None, s_max = None, s_times = Some mapped,
                        s_doseAmount = doseAmount timing, s_doseUnit = doseUnit timing,
                        s_source = Some Explicit, s_explicitWeekdays = None,
                        s_timeCategories = timeCategories timing\<rparr>)
            else if startsWith periodUnit' ''week'' then
              (let daysSinceOffset = daysDiff - runningOffsetDays in
               if daysSinceOffset < 0 then None
               else let weekIndex = daysSinceOffset div 7;
                        everyNWeeks = max 1 period' in
                 if js_rem weekIndex everyNWeeks \<noteq> 0 then None
                 else Some \<lparr>s_asNeeded = None, s_max = None, s_times = Some mapped,
                        s_doseAmount = doseAmount timing, s_doseUnit = doseUnit timing,
                        s_source = Some Explicit, s_explicitWeekdays = None,
                        s_timeCategories = timeCategories timing\<rparr>)
            else Some \<lparr>s_asNeeded = None, s_max = None, s_times = Some mapped,
                   s_doseAmount = doseAmount timing, s_doseUnit = doseUnit timing,
                   s_source = Some Explicit, s_explicitWeekdays = None,
                   s_timeCategories = timeCategories timing\<rparr>))"

text \<open>Lines 1553-1557: the weekdays of an active week.\<close>

function chosenLoop :: "int \<Rightarrow> int \<Rightarrow> int \<Rightarrow> int set \<Rightarrow> int set" where
  "chosenLoop baseWeekday freq i chosenWeekdays =
     (if i < freq then
        (let approx = Math_round (of_int (i * 7) / of_int freq)
         in chosenLoop baseWeekday freq (i + 1)
              (insert (js_rem (baseWeekday + approx) 7) chosenWeekdays))
      else chosenWeekdays)"
  by pat_completeness auto
termination
  by (relation "measure (\<lambda>(baseWeekday, freq, i, chosenWeekdays). nat (freq - i))") auto

declare chosenLoop.simps [simp del]

text \<open>Lines 1517-1577: times calculated from frequency and period.\<close>

definition calculatedSchedule ::
  "int \<Rightarrow> Date \<Rightarrow> Date \<Rightarrow> int \<Rightarrow> Timing \<Rightarrow> MedicationSchedule option" where
  "calculatedSchedule daysDiff startDate date runningOffsetDays timing =
     (let frequency' = max 0 (orNum (frequency timing) 0);
          period' = orNum (period timing) 1;
          periodUnit' = toLowerCase (orStr (periodUnit timing) ''day'')
      in if startsWith periodUnit' ''day'' then
           (let offsetDayIndex = daysDiff - runningOffsetDays in
            if offsetDayIndex < 0 then None
            else let everyN = max 1 period' in
              if js_rem offsetDayIndex everyN \<noteq> 0 then None
              else let times' = timesForFrequency (if frequency' = 0 then 1 else frequency') in
                Some \<lparr>s_asNeeded = None, s_max = None, s_times = Some times',
                  s_doseAmount = doseAmount timing, s_doseUnit = doseUnit timing,
                  s_source = Some Calculated, s_explicitWeekdays = None,
                  s_timeCategories = None\<rparr>)
         else if startsWith periodUnit' ''week'' then
           (let daysSinceOffset = daysDiff - runningOffsetDays in
            if daysSinceOffset < 0 then None
            else let weekIndex = daysSinceOffset div 7;
                     everyNWeeks = max 1 period' in
              if js_rem weekIndex everyNWeeks \<noteq> 0 then None
              else let baseWeekday = getDay startDate;
                       targetWeekday = getDay date;
                       freq = min 7 (max 1 (if frequency' = 0 then 1 else frequency'));
                       chosenWeekdays = chosenLoop baseWeekday freq 0 {}
                in if targetWeekday \<notin> chosenWeekdays then None
                   else let times' = timesForFrequency freq in
                     Some \<lparr>s_asNeeded = None, s_max = None, s_times = Some times',
                       s_doseAmount = doseAmount timing, s_doseUnit = doseUnit timing,
                       s_source = Some Calculated, s_explicitWeekdays = None,
                       s_timeCategories = None\<rparr>)
         else let times' = timesForFrequency (if frequency' = 0 then 1 else frequency') in
           Some \<lparr>s_asNeeded = None, s_max = None, s_times = Some times',
             s_doseAmount = doseAmount timing, s_doseUnit = doseUnit timing,
             s_source = Some Calculated, s_explicitWeekdays = None,
             s_timeCategories = None\<rparr>)"

text \<open>
  Lines 1355-1577: the part of the loop body behind the window check. Every path
  through it returns.
\<close>

definition timingSchedule ::
  "int \<Rightarrow> Date \<Rightarrow> Date \<Rightarrow> int \<Rightarrow> Timing \<Rightarrow> MedicationSchedule option" where
  "timingSchedule daysDiff startDate date runningOffsetDays timing =
     (if isAsNeeded timing then
        (let freq = orNum (frequency timing) 1 in
         Some \<lparr>s_asNeeded = Some True, s_max = Some (orNum (frequencyMax timing) freq),
           s_times = None, s_doseAmount = doseAmount timing, s_doseUnit = doseUnit timing,
           s_source = None, s_explicitWeekdays = None, s_timeCategories = None\<rparr>)
      else if nonEmpty (specificTimes timing) then
        explicitSchedule daysDiff date runningOffsetDays timing (the (specificTimes timing))
      else if nonEmpty (timeCategories timing)
              \<and> mappedCategories (the (timeCategories timing)) \<noteq> [] then
        categorySchedule daysDiff date runningOffsetDays timing
          (mappedCategories (the (timeCategories timing)))
      else calculatedSchedule daysDiff startDate date runningOffsetDays timing)"

text \<open>Lines 1332-1353 and 1580: the walk over the timing sequence.\<close>

fun scheduleLoop ::
  "int \<Rightarrow> Date \<Rightarrow> Date \<Rightarrow> int \<Rightarrow> Timing list \<Rightarrow> MedicationSchedule option" where
  "scheduleLoop daysDiff startDate date runningOffsetDays [] = None"
| "scheduleLoop daysDiff startDate date runningOffsetDays (timing # rest) =
     (let durationDays = orNum (duration timing) 0 in
      if durationDays > 0 then
        (let windowStart = runningOffsetDays;
             windowEnd = runningOffsetDays + durationDays
         in if daysDiff < windowStart \<or> daysDiff \<ge> windowEnd then
              scheduleLoop daysDiff startDate date (runningOffsetDays + durationDays) rest
            else timingSchedule daysDiff startDate date runningOffsetDays timing)
      else
        (if daysDiff < runningOffsetDays then
           scheduleLoop daysDiff startDate date (runningOffsetDays + durationDays) rest
         else timingSchedule daysDiff startDate date runningOffsetDays timing))"

definition getMedicationSchedule ::
  "Date \<Rightarrow> MedicationStatement \<Rightarrow> Date \<Rightarrow> MedicationSchedule option" where
  "getMedicationSchedule currentDate med date =
     (let startDate = setHoursZero currentDate;
          daysDiff = daysDiffOf startDate date
      in scheduleLoop daysDiff startDate date 0 (timingSequence med))"

text \<open>
  The window check of the loop (lines 1338-1353) as a predicate: the loop computes the
  schedule from \<open>timing\<close> when it holds and moves on to the next phase when it fails.
\<close>

definition inWindow :: "int \<Rightarrow> int \<Rightarrow> Timing \<Rightarrow> bool" where
  "inWindow daysDiff runningOffsetDays timing =
     (let durationDays = orNum (duration timing) 0 in
      if durationDays > 0 then
        \<not> (daysDiff < runningOffsetDays \<or> daysDiff \<ge> runningOffsetDays + durationDays)
      else \<not> daysDiff < runningOffsetDays)"

subsection \<open>The two earlier copies of the projector\<close>

text \<open>
  \<open>MedicationSchedule\<close> as the earlier copies have it: three optional fields.
\<close>

record MedicationSchedule0 =
  asNeeded0 :: "bool option"
  max0 :: "int option"
  times0 :: "string list option"

text \<open>Truthiness of an optional number.\<close>

definition truthy :: "int option \<Rightarrow> bool" where
  "truthy x = (case x of None \<Rightarrow> False | Some v \<Rightarrow> v \<noteq> 0)"

text \<open>The \<open>if\<close> chain that pushes the clock times of a frequency onto \<open>times\<close>.\<close>

definition pushTimes :: "int \<Rightarrow> string list" where
  "pushTimes frequency' =
     (if frequency' = 1 then [''08:00'']
      else if frequency' = 2 then [''08:00'', ''20:00'']
      else if frequency' = 3 then [''08:00'', ''14:00'', ''20:00'']
      else if frequency' = 4 then [''08:00'', ''12:00'', ''16:00'', ''20:00'']
      else [])"

text \<open>
  MedicationCard.tsx, lines 485-529: the copy whose boundary check is \<open><=\<close>. The array
  \<open>times\<close> and the counter \<open>durationSoFar\<close> live across the iterations.
\<close>

fun loop_le :: "int \<Rightarrow> int \<Rightarrow> string list \<Rightarrow> Timing list \<Rightarrow> MedicationSchedule0 option" where
  "loop_le daysDiff durationSoFar times' [] =
     Some \<lparr>asNeeded0 = None, max0 = None, times0 = Some times'\<rparr>"
| "loop_le daysDiff durationSoFar times' (timing # rest) =
     (if truthy (duration timing) \<and> daysDiff \<le> the (duration timing) + durationSoFar then
        loop_le daysDiff (durationSoFar + the (duration timing)) times' rest
      else if \<not> truthy (duration timing) then
        Some \<lparr>asNeeded0 = None, max0 = None, times0 = Some (times' @ [''08:00''])\<rparr>
      else
        (let frequency' = orNum (frequency timing) 1 in
         if isAsNeeded timing then
           Some \<lparr>asNeeded0 = Some True, max0 = Some (orNum (frequencyMax timing) frequency'),
             times0 = None\<rparr>
         else loop_le daysDiff durationSoFar (times' @ pushTimes frequency') rest))"

definition getMedicationSchedule_le ::
  "Date \<Rightarrow> MedicationStatement \<Rightarrow> Date \<Rightarrow> MedicationSchedule0 option" where
  "getMedicationSchedule_le currentDate med date =
     (let startDate = setHoursZero currentDate;
          daysDiff = daysDiffOf startDate date
      in loop_le daysDiff 0 [] (timingSequence med))"

text \<open>
  The unnamed source file part_002, lines 112-155: the copy whose boundary check is
  \<open>>=\<close>; a phase without duration makes it return \<open>null\<close>.
\<close>

fun loop_ge :: "int \<Rightarrow> int \<Rightarrow> string list \<Rightarrow> Timing list \<Rightarrow> MedicationSchedule0 option" where
  "loop_ge daysDiff durationSoFar times' [] =
     Some \<lparr>asNeeded0 = None, max0 = None, times0 = Some times'\<rparr>"
| "loop_ge daysDiff durationSoFar times' (timing # rest) =
     (if truthy (duration timing) \<and> daysDiff \<ge> the (duration timing) + durationSoFar then
        loop_ge daysDiff (durationSoFar + the (duration timing)) times' rest
      else if \<not> truthy (duration timing) then None
      else
        (let frequency' = orNum (frequency timing) 1 in
         if isAsNeeded timing then
           Some \<lparr>asNeeded0 = Some True, max0 = Some (orNum (frequencyMax timing) frequency'),
             times0 = None\<rparr>
         else loop_ge daysDiff durationSoFar (times' @ pushTimes frequency') rest))"

definition getMedicationSchedule_ge ::
  "Date \<Rightarrow> MedicationStatement \<Rightarrow> Date \<Rightarrow> MedicationSchedule0 option" where
  "getMedicationSchedule_ge currentDate med date =
     (let startDate = setHoursZero currentDate;
          daysDiff = daysDiffOf startDate date
      in loop_ge daysDiff 0 [] (timingSequence med))"

subsection \<open>Sample data\<close>

text \<open>
  A scheduled phase with every optional field absent and a medication around a timing
  sequence; the examples below are updates of these.
\<close>

definition plainTiming :: Timing where
  "plainTiming = \<lparr>orderInSequence = None, doseAmount = 1, doseUnit = Some ''tablet'',
     frequency = None, frequencyMax = None, period = None, periodMax = None,
     periodUnit = None, duration = None, durationUnit = None, count_of = None,
     isAsNeeded = False, specificTimes = None, timeCategories = None, weekdays = None,
     rawText = None\<rparr>"

definition medOf :: "Timing list \<Rightarrow> MedicationStatement" where
  "medOf ts = \<lparr>medication = ''prednisone'', brandName = None, genericName = None,
     rxnormCode = ''unknown'', form = None, timingSequence = ts,
     strength = \<lparr>amount = 10, unit_of = ''mg''\<rparr>, sourceText = ''prednisone''\<rparr>"

text \<open>Midnight of the \<open>n\<close>-th day after the epoch; day 3 is a Sunday.\<close>

definition dayAt :: "int \<Rightarrow> Date" where
  "dayAt n = n * msPerDay"

section \<open>Properties\<close>

subsection \<open>Auxiliary facts\<close>

lemma js_rem_nonneg: "0 \<le> a \<Longrightarrow> 0 < b \<Longrightarrow> js_rem a b = a mod b"
  by (cases "a = 0") (simp_all add: js_rem_def)

lemma scheduleLoop_inWindow:
  "inWindow daysDiff ws timing \<Longrightarrow>
   scheduleLoop daysDiff startDate date ws (timing # rest) =
     timingSchedule daysDiff startDate date ws timing"
  by (simp add: inWindow_def Let_def split: if_splits)

lemma scheduleLoop_skip:
  "\<not> inWindow daysDiff ws timing \<Longrightarrow>
   scheduleLoop daysDiff startDate date ws (timing # rest) =
     scheduleLoop daysDiff startDate date (ws + orNum (duration timing) 0) rest"
  by (auto simp add: inWindow_def Let_def)

lemma days_div: "(n * 86400000 - m * 86400000) div 86400000 = (n - m :: int)"
proof -
  have "n * 86400000 - m * 86400000 = (n - m) * (86400000::int)"
    by (simp only: left_diff_distrib)
  then show ?thesis
    by (simp only: nonzero_mult_div_cancel_right)
qed

lemma setHoursZero_dayAt: "setHoursZero (dayAt n) = dayAt n"
  by (simp add: setHoursZero_def dayAt_def msPerDay_def)

lemma daysDiffOf_dayAt: "daysDiffOf (setHoursZero (dayAt m)) (dayAt n) = n - m"
  unfolding setHoursZero_dayAt
  unfolding daysDiffOf_def dayAt_def msPerDay_def
  using days_div [of n m] by simp

lemma getDay_dayAt: "getDay (dayAt n) = (n + 4) mod 7"
  by (simp add: getDay_def dayAt_def msPerDay_def)

lemma timingSchedule_durationUnit:
  "timingSchedule dd sd date ws (timing\<lparr>durationUnit := u\<rparr>) = timingSchedule dd sd date ws timing"
  by (simp add: timingSchedule_def explicitSchedule_def categorySchedule_def
      calculatedSchedule_def Let_def cong: if_cong)

lemma timingSchedule_duration:
  "timingSchedule dd sd date ws (timing\<lparr>duration := x\<rparr>) = timingSchedule dd sd date ws timing"
  by (simp add: timingSchedule_def explicitSchedule_def categorySchedule_def
      calculatedSchedule_def Let_def cong: if_cong)

lemma timingSchedule_calculated:
  assumes "\<not> isAsNeeded timing" and "\<not> nonEmpty (specificTimes timing)"
    and "\<not> (nonEmpty (timeCategories timing)
           \<and> mappedCategories (the (timeCategories timing)) \<noteq> [])"
  shows "timingSchedule dd sd date ws timing = calculatedSchedule dd sd date ws timing"
  using assms by (auto simp add: timingSchedule_def)

lemma getMedicationSchedule_loop:
  "getMedicationSchedule currentDate med date =
     scheduleLoop (daysDiffOf (setHoursZero currentDate) date) (setHoursZero currentDate) date 0
       (timingSequence med)"
  by (simp add: getMedicationSchedule_def Let_def)

lemma toLowerCase_day: "toLowerCase ''day'' = ''day''"
  by (simp add: toLowerCase_def lowerChar_def)

lemma toLowerCase_week: "toLowerCase ''week'' = ''week''"
  by (simp add: toLowerCase_def lowerChar_def)

lemma toLowerCase_append: "toLowerCase (a @ b) = toLowerCase a @ toLowerCase b"
  by (simp add: toLowerCase_def)

lemma startsWith_append: "startsWith s p \<longleftrightarrow> (\<exists>r. s = p @ r)"
proof
  assume "startsWith s p"
  then have "s = p @ drop (length p) s"
    by (metis append_take_drop_id startsWith_def)
  then show "\<exists>r. s = p @ r" ..
next
  assume "\<exists>r. s = p @ r"
  then show "startsWith s p"
    by (auto simp add: startsWith_def)
qed


lemma startsWith_week_lower:
  assumes "startsWith pu ''week''"
  shows "startsWith (toLowerCase pu) ''week'' \<and> \<not> startsWith (toLowerCase pu) ''day''"
proof -
  from assms obtain r where "pu = ''week'' @ r"
    unfolding startsWith_append ..
  then have eq: "toLowerCase pu = ''week'' @ toLowerCase r"
    by (simp only: toLowerCase_append toLowerCase_week)
  then have "startsWith (toLowerCase pu) ''week''"
    unfolding startsWith_append by blast
  moreover have "\<not> startsWith (toLowerCase pu) ''day''"
    unfolding eq by (simp add: startsWith_def)
  ultimately show ?thesis ..
qed

lemma timesLoop_map:
  "timesLoop f step i acc =
     acc @ map (\<lambda>k. padStart2 (String_num (Math_round (8 + step * of_int k))) @ '':00'')
             [i..f - 1]"
proof (induction f step i acc rule: timesLoop.induct)
  case (1 f step i acc)
  show ?case
  proof (cases "i < f")
    case True
    then have "[i..f - 1] = i # [i + 1..f - 1]"
      by (simp add: upto_rec1)
    with True 1 show ?thesis
      by (subst timesLoop.simps) (simp add: Let_def)
  next
    case False
    then show ?thesis
      by (subst timesLoop.simps) simp
  qed
qed

lemma timesForFrequency_nonempty: "1 \<le> n \<Longrightarrow> timesForFrequency n \<noteq> []"
  by (simp add: timesForFrequency_def timesLoop_map Let_def)

lemma explicitSchedule_times:
  assumes "explicitSchedule dd date ws timing sts = Some s"
  shows "s_times s = Some sts"
  using assms by (auto simp add: explicitSchedule_def Let_def split: if_splits)

lemma categorySchedule_times:
  assumes "categorySchedule dd date ws timing mapped = Some s"
  shows "s_times s = Some mapped"
  using assms by (auto simp add: categorySchedule_def Let_def split: if_splits)

lemma calculatedSchedule_times:
  assumes "calculatedSchedule dd sd date ws timing = Some s"
  shows "\<exists>ts. s_times s = Some ts \<and> ts \<noteq> []"
  using assms
  by (auto simp add: calculatedSchedule_def Let_def timesForFrequency_nonempty
      split: if_splits)

lemma timingSchedule_times:
  assumes "timingSchedule dd sd date ws timing = Some s" and "s_asNeeded s \<noteq> Some True"
  shows "\<exists>ts. s_times s = Some ts \<and> ts \<noteq> []"
proof -
  consider (prn) "isAsNeeded timing"
    | (explicit) "\<not> isAsNeeded timing" "nonEmpty (specificTimes timing)"
    | (category) "\<not> isAsNeeded timing" "\<not> nonEmpty (specificTimes timing)"
        "nonEmpty (timeCategories timing)"
        "mappedCategories (the (timeCategories timing)) \<noteq> []"
    | (calculated) "\<not> isAsNeeded timing" "\<not> nonEmpty (specificTimes timing)"
        "\<not> (nonEmpty (timeCategories timing)
            \<and> mappedCategories (the (timeCategories timing)) \<noteq> [])"
    by blast
  then show ?thesis
  proof cases
    case prn
    with assms show ?thesis
      by (auto simp add: timingSchedule_def Let_def)
  next
    case explicit
    with assms(1) have "explicitSchedule dd date ws timing (the (specificTimes timing)) = Some s"
      by (simp add: timingSchedule_def)
    then have "s_times s = Some (the (specificTimes timing))"
      by (rule explicitSchedule_times)
    moreover from explicit(2) have "the (specificTimes timing) \<noteq> []"
      by (auto simp add: nonEmpty_def split: option.splits)
    ultimately show ?thesis by simp
  next
    case category
    with assms(1) have "categorySchedule dd date ws timing
        (mappedCategories (the (timeCategories timing))) = Some s"
      by (simp add: timingSchedule_def)
    then have "s_times s = Some (mappedCategories (the (timeCategories timing)))"
      by (rule categorySchedule_times)
    with category(4) show ?thesis by simp
  next
    case calculated
    then have "timingSchedule dd sd date ws timing = calculatedSchedule dd sd date ws timing"
      by (intro timingSchedule_calculated)
    with assms(1) have "calculatedSchedule dd sd date ws timing = Some s"
      by simp
    then show ?thesis
      by (rule calculatedSchedule_times)
  qed
qed

lemma Math_round_round: "Math_round x = round x"
  by (simp add: Math_round_def round_def)


lemma inWindow_offset: "inWindow dd ws timing \<Longrightarrow> 0 \<le> dd - ws"
  by (simp add: inWindow_def Let_def split: if_splits)

lemma every_n: "max 1 (orNum x 1) = max 1 (case x of None \<Rightarrow> 1 | Some p \<Rightarrow> p)"
  by (simp add: orNum_def split: option.splits)

lemma startsWith_nonempty: "startsWith pu (c # p) \<Longrightarrow> orStr (Some pu) d = pu"
  by (auto simp add: startsWith_def orStr_def)

lemma no_usable_inputs:
  assumes "specificTimes timing = None \<or> specificTimes timing = Some []"
    and "timeCategories timing = None
         \<or> (\<exists>cats. timeCategories timing = Some cats \<and> mappedCategories cats = [])"
  shows "\<not> nonEmpty (specificTimes timing)"
    and "\<not> (nonEmpty (timeCategories timing)
           \<and> mappedCategories (the (timeCategories timing)) \<noteq> [])"
  using assms by (auto simp add: nonEmpty_def)

lemma chosenLoop_image:
  "chosenLoop b f i S =
     S \<union> (\<lambda>k. js_rem (b + Math_round (of_int (k * 7) / of_int f)) 7) ` {i..f - 1}"
proof (induction b f i S rule: chosenLoop.induct)
  case (1 b f i S)
  show ?case
  proof (cases "i < f")
    case True
    then have "{i..f - 1} = insert i {i + 1..f - 1}"
      by auto
    with True 1 show ?thesis
      by (subst chosenLoop.simps) (simp add: Let_def)
  next
    case False
    then show ?thesis
      by (subst chosenLoop.simps) simp
  qed
qed

lemma weekday_offset_step:
  assumes "1 \<le> f" and "f \<le> 7" and "k < l"
  shows "round (of_int k * 7 / of_int f :: rat) < round (of_int l * 7 / of_int f :: rat)"
proof -
  have fpos: "(0::rat) < of_int f"
    using assms(1) by simp
  have "(of_int f :: rat) \<le> of_int 7"
    using assms(2) by (simp only: of_int_le_iff)
  then have "(of_int f :: rat) \<le> 7"
    by simp
  moreover have "(of_int 1 :: rat) \<le> of_int (l - k)"
    using assms(3) by (simp only: of_int_le_iff)
  then have "(1::rat) \<le> of_int (l - k)"
    by simp
  ultimately have "(of_int f :: rat) * 1 \<le> 7 * of_int (l - k)"
    by (intro mult_mono) simp_all
  then have "(1::rat) \<le> of_int (l - k) * 7 / of_int f"
    using fpos by (simp add: pos_le_divide_eq mult.commute)
  also have "\<dots> = of_int l * 7 / of_int f - of_int k * 7 / of_int f"
    by (simp add: diff_divide_distrib left_diff_distrib)
  finally have "of_int k * 7 / of_int f + 1 / 2 + 1 \<le> (of_int l * 7 / of_int f + 1 / 2 :: rat)"
    by simp
  then have "\<lfloor>of_int k * 7 / of_int f + 1 / 2 + 1 :: rat\<rfloor>
      \<le> \<lfloor>of_int l * 7 / of_int f + 1 / 2 :: rat\<rfloor>"
    by (rule floor_mono)
  moreover have "\<lfloor>of_int k * 7 / of_int f + 1 / 2 + 1 :: rat\<rfloor>
      = \<lfloor>of_int k * 7 / of_int f + 1 / 2 :: rat\<rfloor> + 1"
    using floor_add_int [of "of_int k * 7 / of_int f + 1 / 2 :: rat" 1] by simp
  ultimately show ?thesis
    unfolding round_def by linarith
qed

lemma weekday_offset_range:
  assumes "1 \<le> f" and "f \<le> 7" and "0 \<le> k" and "k \<le> f - 1"
  shows "0 \<le> round (of_int k * 7 / of_int f :: rat)"
    and "round (of_int k * 7 / of_int f :: rat) \<le> 6"
proof -
  have fpos: "(0::rat) < of_int f"
    using assms(1) by simp
  have "(0::rat) \<le> of_int k * 7 / of_int f"
    using assms(3) fpos by simp
  then show "0 \<le> round (of_int k * 7 / of_int f :: rat)"
    by (simp add: round_def le_floor_iff)
  have "round (of_int k * 7 / of_int f :: rat) < round (of_int f * 7 / of_int f :: rat)"
    using assms by (intro weekday_offset_step) simp_all
  also have "\<dots> = 7"
    using fpos by simp
  finally show "round (of_int k * 7 / of_int f :: rat) \<le> 6"
    by simp
qed

lemma weekday_shift_inj:
  assumes "(b + x) mod 7 = (b + y) mod 7"
    and "0 \<le> x" and "x \<le> 6" and "0 \<le> y" and "y \<le> 6"
  shows "x = (y::int)"
proof -
  have "7 dvd (b + x) - (b + y)"
    using assms(1) by (simp only: mod_eq_dvd_iff)
  then obtain q where "x - y = 7 * q"
    by (auto simp add: dvd_def)
  with assms(2-5) show ?thesis
    by arith
qed

lemma chosen_weekdays_distinct:
  assumes "1 \<le> f" and "f \<le> 7"
  shows "inj_on (\<lambda>i. (b + round (of_int i * 7 / of_int f :: rat)) mod 7) {0..f - 1}"
proof (rule inj_onI)
  fix k l
  assume k: "k \<in> {0..f - 1}" and l: "l \<in> {0..f - 1}"
    and eq: "(b + round (of_int k * 7 / of_int f :: rat)) mod 7
           = (b + round (of_int l * 7 / of_int f :: rat)) mod 7"
  define x where "x = round (of_int k * 7 / of_int f :: rat)"
  define y where "y = round (of_int l * 7 / of_int f :: rat)"
  have kr: "0 \<le> k" "k \<le> f - 1" and lr: "0 \<le> l" "l \<le> f - 1"
    using k l by simp_all
  have x: "0 \<le> x" "x \<le> 6"
    unfolding x_def by (rule weekday_offset_range [OF assms kr])+
  have y: "0 \<le> y" "y \<le> 6"
    unfolding y_def by (rule weekday_offset_range [OF assms lr])+
  have "(b + x) mod 7 = (b + y) mod 7"
    using eq unfolding x_def y_def .
  then have xy: "x = y"
    using x y by (rule weekday_shift_inj)
  show "k = l"
  proof (rule ccontr)
    assume "k \<noteq> l"
    then consider "k < l" | "l < k"
      by linarith
    then show False
    proof cases
      case 1
      then have "x < y"
        unfolding x_def y_def by (rule weekday_offset_step [OF assms])
      with xy show False by simp
    next
      case 2
      then have "y < x"
        unfolding x_def y_def by (rule weekday_offset_step [OF assms])
      with xy show False by simp
    qed
  qed
qed

lemma chosenLoop_weekdays:
  assumes "1 \<le> f" and "0 \<le> b"
  shows "chosenLoop b f 0 {} =
     (\<lambda>i. (b + round (of_int i * 7 / of_int f :: rat)) mod 7) ` {0..f - 1}"
proof -
  have "js_rem (b + Math_round (of_int (k * 7) / of_int f)) 7
      = (b + round (of_int k * 7 / of_int f :: rat)) mod 7" if "k \<in> {0..f - 1}" for k
  proof -
    have "(0::rat) \<le> of_int k * 7 / of_int f"
      using that assms(1) by simp
    then have "0 \<le> round (of_int k * 7 / of_int f :: rat)"
      by (simp add: round_def le_floor_iff)
    with assms(2) show ?thesis
      by (simp add: js_rem_nonneg Math_round_round)
  qed
  then show ?thesis
    unfolding chosenLoop_image by (auto intro!: image_cong)
qed

lemma getDay_range: "0 \<le> getDay d" "getDay d < 7"
  by (simp_all add: getDay_def)

lemma clamp_frequency:
  "min 7 (max 1 (if max 0 (orNum x 0) = 0 then 1 else max 0 (orNum x 0))) =
     min 7 (max 1 (case x of None \<Rightarrow> 1 | Some n \<Rightarrow> n))"
  by (simp add: orNum_def split: option.splits)

subsection \<open>Window length\<close>

text \<open>
  Claim C1, as the code has it. The claim says that the window length is
  \<open>duration\<close> converted by \<open>durationUnit\<close> (weeks times 7, and so on). The projector
  never reads \<open>durationUnit\<close>: with a first phase of duration 2 and unit weeks, day
  offset 2 already belongs to the second phase.
\<close>

theorem two_weeks_is_two_days:
  "getMedicationSchedule (dayAt 0)
     (medOf [plainTiming\<lparr>frequency := Some 1, duration := Some 2,
                durationUnit := Some ''weeks''\<rparr>,
             plainTiming\<lparr>frequency := Some 2\<rparr>])
     (dayAt 2)
   = Some \<lparr>s_asNeeded = None, s_max = None, s_times = Some [''08:00'', ''20:00''],
       s_doseAmount = 1, s_doseUnit = Some ''tablet'', s_source = Some Calculated,
       s_explicitWeekdays = None, s_timeCategories = None\<rparr>"
  by (simp add: getMedicationSchedule_def daysDiffOf_dayAt medOf_def plainTiming_def
      orNum_def orStr_def timingSchedule_def nonEmpty_def calculatedSchedule_def
      toLowerCase_def lowerChar_def startsWith_def js_rem_def timesForFrequency_def)

text \<open>
  Claim C1, amended. For every phase whose duration \<open>d\<close> is present and positive, the
  window length in days is \<open>d\<close> itself, whatever \<open>durationUnit\<close> holds: the phase serves
  the day offsets from \<open>windowStart\<close> up to, and not including, \<open>windowStart + d\<close>, and for
  every other day offset the walk goes on to the next phase with the offset advanced
  by \<open>d\<close>.
\<close>

theorem window_length_is_duration:
  assumes "duration timing = Some d" and "0 < d"
  shows "scheduleLoop dd sd date ws (timing\<lparr>durationUnit := u\<rparr> # rest) =
     (if ws \<le> dd \<and> dd < ws + d then timingSchedule dd sd date ws timing
      else scheduleLoop dd sd date (ws + d) rest)"
  using assms by (auto simp add: orNum_def Let_def timingSchedule_durationUnit)

theorem window_length_is_duration_witness:
  "duration (plainTiming\<lparr>frequency := Some 1, duration := Some 2\<rparr>) = Some 2 \<and> (0::int) < 2 \<and>
   scheduleLoop 1 (dayAt 0) (dayAt 1) 0
     (plainTiming\<lparr>frequency := Some 1, duration := Some 2, durationUnit := Some ''weeks''\<rparr>
        # [plainTiming\<lparr>frequency := Some 2\<rparr>])
   = timingSchedule 1 (dayAt 0) (dayAt 1) 0 (plainTiming\<lparr>frequency := Some 1, duration := Some 2\<rparr>) \<and>
   scheduleLoop 2 (dayAt 0) (dayAt 2) 0
     (plainTiming\<lparr>frequency := Some 1, duration := Some 2, durationUnit := Some ''weeks''\<rparr>
        # [plainTiming\<lparr>frequency := Some 2\<rparr>])
   = scheduleLoop 2 (dayAt 0) (dayAt 2) 2 [plainTiming\<lparr>frequency := Some 2\<rparr>]"
proof -
  have h: "duration (plainTiming\<lparr>frequency := Some 1, duration := Some 2\<rparr>) = Some 2"
    by (simp add: plainTiming_def)
  show ?thesis
    using h
      window_length_is_duration [OF h, of 1 "dayAt 0" "dayAt 1" 0 "Some ''weeks''"
        "[plainTiming\<lparr>frequency := Some 2\<rparr>]"]
      window_length_is_duration [OF h, of 2 "dayAt 0" "dayAt 2" 0 "Some ''weeks''"
        "[plainTiming\<lparr>frequency := Some 2\<rparr>]"]
    by simp
qed

subsection \<open>Hand-over between two phases\<close>

text \<open>
  Claim C2. For phase A (frequency 1, period 1, period unit "day", duration 7) followed
  by the open-ended phase B (frequency 2, period 1, period unit "day"), neither of them
  as-needed nor carrying explicit times or time categories, the projector returns the
  single-daily times on the day offsets 0 to 6 and the twice-daily times on every day
  offset from 7 on. In general a bounded phase excludes its end day: a day offset at or
  after \<open>windowStart + d\<close> sends the walk to the next phase, whose window starts at
  \<open>windowStart + d\<close>, while the day offsets from \<open>windowStart\<close> to \<open>windowStart + d - 1\<close>
  are served by the phase itself.
\<close>

theorem two_phase_handover:
  assumes "timingSequence med = [A, B]"
    and "frequency A = Some 1" and "period A = Some 1" and "periodUnit A = Some ''day''"
    and "duration A = Some 7"
    and "\<not> isAsNeeded A" and "specificTimes A = None" and "timeCategories A = None"
    and "frequency B = Some 2" and "period B = Some 1" and "periodUnit B = Some ''day''"
    and "duration B = None"
    and "\<not> isAsNeeded B" and "specificTimes B = None" and "timeCategories B = None"
  shows "(0 \<le> daysDiffOf (setHoursZero currentDate) date
            \<and> daysDiffOf (setHoursZero currentDate) date \<le> 6 \<longrightarrow>
          getMedicationSchedule currentDate med date =
            Some \<lparr>s_asNeeded = None, s_max = None, s_times = Some [''08:00''],
              s_doseAmount = doseAmount A, s_doseUnit = doseUnit A,
              s_source = Some Calculated, s_explicitWeekdays = None,
              s_timeCategories = None\<rparr>) \<and>
         (7 \<le> daysDiffOf (setHoursZero currentDate) date \<longrightarrow>
          getMedicationSchedule currentDate med date =
            Some \<lparr>s_asNeeded = None, s_max = None, s_times = Some [''08:00'', ''20:00''],
              s_doseAmount = doseAmount B, s_doseUnit = doseUnit B,
              s_source = Some Calculated, s_explicitWeekdays = None,
              s_timeCategories = None\<rparr>) \<and>
         (duration timing = Some d \<and> 0 < d \<and> ws + d \<le> dd \<longrightarrow>
          scheduleLoop dd sd date' ws (timing # rest) = scheduleLoop dd sd date' (ws + d) rest) \<and>
         (duration timing = Some d \<and> 0 < d \<and> ws \<le> dd \<and> dd < ws + d \<longrightarrow>
          scheduleLoop dd sd date' ws (timing # rest) = timingSchedule dd sd date' ws timing)"
proof -
  let ?dd = "daysDiffOf (setHoursZero currentDate) date"
  let ?sd = "setHoursZero currentDate"
  have calcA: "timingSchedule k ?sd date 0 A = calculatedSchedule k ?sd date 0 A" for k
    using assms by (intro timingSchedule_calculated) (simp_all add: nonEmpty_def)
  have calcB: "timingSchedule k ?sd date 7 B = calculatedSchedule k ?sd date 7 B" for k
    using assms by (intro timingSchedule_calculated) (simp_all add: nonEmpty_def)
  have first: "getMedicationSchedule currentDate med date =
      Some \<lparr>s_asNeeded = None, s_max = None, s_times = Some [''08:00''],
        s_doseAmount = doseAmount A, s_doseUnit = doseUnit A,
        s_source = Some Calculated, s_explicitWeekdays = None,
        s_timeCategories = None\<rparr>"
    if "0 \<le> ?dd" and "?dd \<le> 6"
  proof -
    have "getMedicationSchedule currentDate med date = timingSchedule ?dd ?sd date 0 A"
      using that assms(1,5) by (simp add: getMedicationSchedule_loop orNum_def)
    also have "\<dots> = calculatedSchedule ?dd ?sd date 0 A"
      by (rule calcA)
    finally show ?thesis
      using that assms(2-4)
      by (simp add: calculatedSchedule_def orNum_def orStr_def toLowerCase_day
          startsWith_def js_rem_def timesForFrequency_def)
  qed
  have second: "getMedicationSchedule currentDate med date =
      Some \<lparr>s_asNeeded = None, s_max = None, s_times = Some [''08:00'', ''20:00''],
        s_doseAmount = doseAmount B, s_doseUnit = doseUnit B,
        s_source = Some Calculated, s_explicitWeekdays = None,
        s_timeCategories = None\<rparr>"
    if "7 \<le> ?dd"
  proof -
    have "getMedicationSchedule currentDate med date = timingSchedule ?dd ?sd date 7 B"
      using that assms(1,5,12) by (simp add: getMedicationSchedule_loop orNum_def)
    also have "\<dots> = calculatedSchedule ?dd ?sd date 7 B"
      by (rule calcB)
    finally show ?thesis
      using that assms(9-11)
      by (simp add: calculatedSchedule_def orNum_def orStr_def toLowerCase_day
          startsWith_def js_rem_def timesForFrequency_def)
  qed
  have skip: "scheduleLoop dd sd date' ws (timing # rest) = scheduleLoop dd sd date' (ws + d) rest"
    if "duration timing = Some d" and "0 < d" and "ws + d \<le> dd"
    using that by (simp add: orNum_def)
  have stay: "scheduleLoop dd sd date' ws (timing # rest) = timingSchedule dd sd date' ws timing"
    if "duration timing = Some d" and "0 < d" and "ws \<le> dd" and "dd < ws + d"
    using that by (simp add: orNum_def)
  from first second skip stay show ?thesis
    by blast
qed

theorem two_phase_handover_witness:
  "getMedicationSchedule (dayAt 0)
     (medOf [plainTiming\<lparr>frequency := Some 1, period := Some 1, periodUnit := Some ''day'',
                duration := Some 7\<rparr>,
             plainTiming\<lparr>frequency := Some 2, period := Some 1, periodUnit := Some ''day''\<rparr>])
     (dayAt 6)
   = Some \<lparr>s_asNeeded = None, s_max = None, s_times = Some [''08:00''],
       s_doseAmount = 1, s_doseUnit = Some ''tablet'', s_source = Some Calculated,
       s_explicitWeekdays = None, s_timeCategories = None\<rparr> \<and>
   getMedicationSchedule (dayAt 0)
     (medOf [plainTiming\<lparr>frequency := Some 1, period := Some 1, periodUnit := Some ''day'',
                duration := Some 7\<rparr>,
             plainTiming\<lparr>frequency := Some 2, period := Some 1, periodUnit := Some ''day''\<rparr>])
     (dayAt 7)
   = Some \<lparr>s_asNeeded = None, s_max = None, s_times = Some [''08:00'', ''20:00''],
       s_doseAmount = 1, s_doseUnit = Some ''tablet'', s_source = Some Calculated,
       s_explicitWeekdays = None, s_timeCategories = None\<rparr>"
proof -
  let ?A = "plainTiming\<lparr>frequency := Some 1, period := Some 1, periodUnit := Some ''day'',
                duration := Some 7\<rparr>"
  let ?B = "plainTiming\<lparr>frequency := Some 2, period := Some 1, periodUnit := Some ''day''\<rparr>"
  have six: "daysDiffOf (setHoursZero (dayAt 0)) (dayAt 6) = 6"
    and seven: "daysDiffOf (setHoursZero (dayAt 0)) (dayAt 7) = 7"
    by (simp_all add: daysDiffOf_dayAt)
  show ?thesis
    using two_phase_handover [of "medOf [?A, ?B]" ?A ?B "dayAt 0" "dayAt 6"]
      two_phase_handover [of "medOf [?A, ?B]" ?A ?B "dayAt 0" "dayAt 7"]
    unfolding six seven
    by (simp add: medOf_def plainTiming_def)
qed

subsection \<open>Dates before the regimen start\<close>

lemma scheduleLoop_before_start:
  assumes "dd < 0" and "0 \<le> ws"
    and "\<forall>t\<in>set ts. \<forall>d. duration t = Some d \<longrightarrow> 0 \<le> d"
  shows "scheduleLoop dd sd date ws ts = None"
  using assms
proof (induction ts arbitrary: ws)
  case Nil
  then show ?case by simp
next
  case (Cons t ts)
  have nonneg: "0 \<le> orNum (duration t) 0"
    using Cons.prems(3) by (auto simp add: orNum_def split: option.splits)
  have "\<not> inWindow dd ws t"
    using Cons.prems(1,2) by (simp add: inWindow_def Let_def)
  then have "scheduleLoop dd sd date ws (t # ts) =
      scheduleLoop dd sd date (ws + orNum (duration t) 0) ts"
    by (rule scheduleLoop_skip)
  also have "\<dots> = None"
    using Cons.prems nonneg by (intro Cons.IH) simp_all
  finally show ?case .
qed

text \<open>
  Claim C3, as the code has it. The claim covers every medication. A phase with a
  negative duration is read as a phase without duration, and when the walk passes it
  the running offset goes down by that duration: after a first phase of duration -5
  the second phase starts at day offset -5, and the day before the regimen start gets
  the second phase's times.
\<close>

theorem negative_duration_reaches_before_start:
  "daysDiffOf (setHoursZero (dayAt 0)) (dayAt (- 1)) = - 1 \<and>
   getMedicationSchedule (dayAt 0)
     (medOf [plainTiming\<lparr>frequency := Some 1, duration := Some (- 5)\<rparr>,
             plainTiming\<lparr>frequency := Some 2\<rparr>])
     (dayAt (- 1))
   = Some \<lparr>s_asNeeded = None, s_max = None, s_times = Some [''08:00'', ''20:00''],
       s_doseAmount = 1, s_doseUnit = Some ''tablet'', s_source = Some Calculated,
       s_explicitWeekdays = None, s_timeCategories = None\<rparr>"
  by (simp add: getMedicationSchedule_def daysDiffOf_dayAt medOf_def plainTiming_def
      orNum_def orStr_def timingSchedule_def nonEmpty_def calculatedSchedule_def
      toLowerCase_def lowerChar_def startsWith_def js_rem_def timesForFrequency_def)

text \<open>
  Claim C3, amended. For every medication none of whose phases has a negative
  duration, and every target date whose day offset from the regimen start is negative,
  the projector returns \<open>null\<close>, whatever else the phases hold (bounded or unbounded,
  as-needed, explicit times, weekday constraints).
\<close>

theorem before_start_is_null:
  assumes "\<forall>t\<in>set (timingSequence med). \<forall>d. duration t = Some d \<longrightarrow> 0 \<le> d"
    and "daysDiffOf (setHoursZero currentDate) date < 0"
  shows "getMedicationSchedule currentDate med date = None"
  using assms by (simp add: getMedicationSchedule_def scheduleLoop_before_start)

theorem before_start_is_null_witness:
  "daysDiffOf (setHoursZero (dayAt 10)) (dayAt 7) < 0 \<and>
   getMedicationSchedule (dayAt 10)
     (medOf [plainTiming\<lparr>frequency := Some 1, duration := Some 7\<rparr>,
             plainTiming\<lparr>isAsNeeded := True, frequencyMax := Some 4, duration := Some 0\<rparr>,
             plainTiming\<lparr>specificTimes := Some [''09:00''], weekdays := Some [''monday'']\<rparr>])
     (dayAt 7) = None"
proof -
  let ?med = "medOf [plainTiming\<lparr>frequency := Some 1, duration := Some 7\<rparr>,
             plainTiming\<lparr>isAsNeeded := True, frequencyMax := Some 4, duration := Some 0\<rparr>,
             plainTiming\<lparr>specificTimes := Some [''09:00''], weekdays := Some [''monday'']\<rparr>]"
  have h1: "\<forall>t\<in>set (timingSequence ?med). \<forall>d. duration t = Some d \<longrightarrow> 0 \<le> d"
    by (simp add: medOf_def plainTiming_def)
  have h2: "daysDiffOf (setHoursZero (dayAt 10)) (dayAt 7) < 0"
    by (simp add: daysDiffOf_dayAt)
  show ?thesis
    using h2 before_start_is_null [OF h1 h2] by simp
qed

subsection \<open>As-needed phases\<close>

text \<open>
  Claim C4, as the code has it. The claim gives the maximum as
  \<open>frequencyMax ?? frequency ?? 1\<close>, so that a frequency of 0 would give a maximum of 0.
  The projector writes \<open>timing.frequencyMax || (timing.frequency || 1)\<close>: a value of 0
  counts as absent. An as-needed phase with frequency 0 and no \<open>frequencyMax\<close> gets the
  maximum 1, and one with \<open>frequencyMax\<close> 0 and frequency 3 gets the maximum 3.
\<close>

theorem as_needed_zero_counts_as_absent:
  "getMedicationSchedule (dayAt 0)
     (medOf [plainTiming\<lparr>isAsNeeded := True, frequency := Some 0\<rparr>]) (dayAt 0)
   = Some \<lparr>s_asNeeded = Some True, s_max = Some 1, s_times = None,
       s_doseAmount = 1, s_doseUnit = Some ''tablet'', s_source = None,
       s_explicitWeekdays = None, s_timeCategories = None\<rparr> \<and>
   getMedicationSchedule (dayAt 0)
     (medOf [plainTiming\<lparr>isAsNeeded := True, frequency := Some 3, frequencyMax := Some 0\<rparr>])
     (dayAt 0)
   = Some \<lparr>s_asNeeded = Some True, s_max = Some 3, s_times = None,
       s_doseAmount = 1, s_doseUnit = Some ''tablet'', s_source = None,
       s_explicitWeekdays = None, s_timeCategories = None\<rparr>"
  by (simp add: getMedicationSchedule_def daysDiffOf_dayAt medOf_def plainTiming_def
      orNum_def timingSchedule_def)

text \<open>
  Claim C4, amended. For every phase with \<open>isAsNeeded\<close> true that passes the window
  check, the projector returns the as-needed occurrence with the phase's \<open>doseAmount\<close>
  and \<open>doseUnit\<close> and with the maximum \<open>frequencyMax\<close> when that is present and not 0,
  otherwise \<open>frequency\<close> when that is present and not 0, otherwise 1. Nothing else of the
  phase enters the result: \<open>weekdays\<close>, \<open>period\<close> and \<open>specificTimes\<close> gate nothing, and
  the later phases are not consulted.
\<close>

theorem as_needed_occurrence:
  assumes "isAsNeeded timing" and "inWindow dd ws timing"
  shows "scheduleLoop dd sd date ws (timing # rest) =
     Some \<lparr>s_asNeeded = Some True,
       s_max = Some (if frequencyMax timing \<noteq> None \<and> frequencyMax timing \<noteq> Some 0
                     then the (frequencyMax timing)
                     else if frequency timing \<noteq> None \<and> frequency timing \<noteq> Some 0
                     then the (frequency timing)
                     else 1),
       s_times = None, s_doseAmount = doseAmount timing, s_doseUnit = doseUnit timing,
       s_source = None, s_explicitWeekdays = None, s_timeCategories = None\<rparr>"
proof -
  have "scheduleLoop dd sd date ws (timing # rest) = timingSchedule dd sd date ws timing"
    using assms(2) by (rule scheduleLoop_inWindow)
  then show ?thesis
    using assms(1) by (auto simp add: timingSchedule_def orNum_def split: option.splits)
qed

theorem as_needed_occurrence_witness:
  "isAsNeeded (plainTiming\<lparr>isAsNeeded := True, frequency := Some 2, frequencyMax := Some 4,
      period := Some 3, specificTimes := Some [''09:00''], weekdays := Some [''monday'']\<rparr>) \<and>
   inWindow 3 0 (plainTiming\<lparr>isAsNeeded := True, frequency := Some 2, frequencyMax := Some 4,
      period := Some 3, specificTimes := Some [''09:00''], weekdays := Some [''monday'']\<rparr>) \<and>
   scheduleLoop 3 (dayAt 0) (dayAt 3) 0
     [plainTiming\<lparr>isAsNeeded := True, frequency := Some 2, frequencyMax := Some 4,
        period := Some 3, specificTimes := Some [''09:00''], weekdays := Some [''monday'']\<rparr>]
   = Some \<lparr>s_asNeeded = Some True, s_max = Some 4, s_times = None,
       s_doseAmount = 1, s_doseUnit = Some ''tablet'', s_source = None,
       s_explicitWeekdays = None, s_timeCategories = None\<rparr>"
proof -
  let ?t = "plainTiming\<lparr>isAsNeeded := True, frequency := Some 2, frequencyMax := Some 4,
      period := Some 3, specificTimes := Some [''09:00''], weekdays := Some [''monday'']\<rparr>"
  have h1: "isAsNeeded ?t"
    by (simp add: plainTiming_def)
  have h2: "inWindow 3 0 ?t"
    by (simp add: inWindow_def plainTiming_def orNum_def)
  show ?thesis
    using h1 h2 as_needed_occurrence [OF h1 h2, of "dayAt 0" "dayAt 3" "[]"]
    by (simp add: plainTiming_def)
qed

subsection \<open>Explicit times on listed weekdays\<close>

lemma weekdayNames_lower: "\<forall>w\<in>set weekdayNames. toLowerCase w = w"
  by (simp add: weekdayNames_def toLowerCase_def lowerChar_def)

lemma explicit_times_lowered_gate:
  assumes "\<not> isAsNeeded timing"
    and "specificTimes timing = Some sts" and "sts \<noteq> []"
    and "weekdays timing = Some wds" and "wds \<noteq> []"
    and "inWindow dd ws timing"
  shows "scheduleLoop dd sd date ws (timing # rest) =
     (if weekdayNames ! nat (getDay date) \<in> set (map toLowerCase wds) then
        Some \<lparr>s_asNeeded = None, s_max = None, s_times = Some sts,
          s_doseAmount = doseAmount timing, s_doseUnit = doseUnit timing,
          s_source = Some Explicit, s_explicitWeekdays = Some wds,
          s_timeCategories = timeCategories timing\<rparr>
      else None)"
proof -
  have "scheduleLoop dd sd date ws (timing # rest) = timingSchedule dd sd date ws timing"
    using assms(6) by (rule scheduleLoop_inWindow)
  also have "\<dots> = explicitSchedule dd date ws timing sts"
    using assms(1-3) by (simp add: timingSchedule_def nonEmpty_def)
  finally show ?thesis
    using assms(4,5) by (simp add: explicitSchedule_def nonEmpty_def weekdayListed_def)
qed

text \<open>
  Claim C5. Take a phase that is not as-needed, has non-empty \<open>specificTimes\<close> and
  non-empty \<open>weekdays\<close>, and passes the window check; the entries of \<open>weekdays\<close> are
  lower-case names, as the data model has them (the seven weekday names are). If the
  weekday name of the target date is a member of \<open>weekdays\<close>, the projector returns the
  \<open>specificTimes\<close> list as it stands, with source "explicit"; otherwise it returns
  \<open>null\<close> for that date, whatever phases follow. The projector lower-cases the entries
  before the test, which changes nothing on such a list.
\<close>

theorem explicit_times_weekday_gate:
  assumes "\<not> isAsNeeded timing"
    and "specificTimes timing = Some sts" and "sts \<noteq> []"
    and "weekdays timing = Some wds" and "wds \<noteq> []"
    and "\<forall>w\<in>set wds. toLowerCase w = w"
    and "inWindow dd ws timing"
  shows "scheduleLoop dd sd date ws (timing # rest) =
     (if weekdayNames ! nat (getDay date) \<in> set wds then
        Some \<lparr>s_asNeeded = None, s_max = None, s_times = Some sts,
          s_doseAmount = doseAmount timing, s_doseUnit = doseUnit timing,
          s_source = Some Explicit, s_explicitWeekdays = Some wds,
          s_timeCategories = timeCategories timing\<rparr>
      else None)"
proof -
  have "map toLowerCase wds = wds"
    using assms(6) by (simp add: map_idI)
  with explicit_times_lowered_gate [OF assms(1-5,7), of sd date rest] show ?thesis
    by simp
qed

theorem explicit_times_weekday_gate_witness:
  "weekdayNames ! nat (getDay (dayAt 4)) = ''monday'' \<and>
   weekdayNames ! nat (getDay (dayAt 5)) = ''tuesday'' \<and>
   scheduleLoop 4 (dayAt 0) (dayAt 4) 0
     [plainTiming\<lparr>specificTimes := Some [''09:00'', ''21:00''],
        weekdays := Some [''monday'', ''thursday'']\<rparr>,
      plainTiming\<lparr>frequency := Some 1\<rparr>]
   = Some \<lparr>s_asNeeded = None, s_max = None, s_times = Some [''09:00'', ''21:00''],
       s_doseAmount = 1, s_doseUnit = Some ''tablet'', s_source = Some Explicit,
       s_explicitWeekdays = Some [''monday'', ''thursday''], s_timeCategories = None\<rparr> \<and>
   scheduleLoop 5 (dayAt 0) (dayAt 5) 0
     [plainTiming\<lparr>specificTimes := Some [''09:00'', ''21:00''],
        weekdays := Some [''monday'', ''thursday'']\<rparr>,
      plainTiming\<lparr>frequency := Some 1\<rparr>]
   = None"
proof -
  let ?t = "plainTiming\<lparr>specificTimes := Some [''09:00'', ''21:00''],
        weekdays := Some [''monday'', ''thursday'']\<rparr>"
  have h1: "\<not> isAsNeeded ?t"
    and h2: "specificTimes ?t = Some [''09:00'', ''21:00'']"
    and h3: "[''09:00'', ''21:00''] \<noteq> []"
    and h4: "weekdays ?t = Some [''monday'', ''thursday'']"
    and h5: "[''monday'', ''thursday''] \<noteq> []"
    by (simp_all add: plainTiming_def)
  have h6: "\<forall>w\<in>set [''monday'', ''thursday'']. toLowerCase w = w"
    by (simp add: toLowerCase_def lowerChar_def)
  have w4: "inWindow 4 0 ?t" and w5: "inWindow 5 0 ?t"
    by (simp_all add: inWindow_def plainTiming_def orNum_def)
  show ?thesis
    using explicit_times_weekday_gate [OF h1 h2 h3 h4 h5 h6 w4, of "dayAt 0" "dayAt 4"
        "[plainTiming\<lparr>frequency := Some 1\<rparr>]"]
      explicit_times_weekday_gate [OF h1 h2 h3 h4 h5 h6 w5, of "dayAt 0" "dayAt 5"
        "[plainTiming\<lparr>frequency := Some 1\<rparr>]"]
    by (simp add: getDay_dayAt weekdayNames_def plainTiming_def)
qed

subsection \<open>Calculated schedule, period in days\<close>



subsection \<open>Calculated schedule, period in weeks\<close>

lemma timesForFrequency_week:
  assumes "1 \<le> f" and "f \<le> 7"
  shows "timesForFrequency f =
     (if f = 1 then [''08:00'']
      else if f = 2 then [''08:00'', ''20:00'']
      else if f = 3 then [''08:00'', ''14:00'', ''20:00'']
      else if f = 4 then [''08:00'', ''12:00'', ''16:00'', ''20:00'']
      else if f = 5 then [''08:00'', ''11:00'', ''14:00'', ''17:00'', ''20:00'']
      else if f = 6 then [''08:00'', ''10:00'', ''13:00'', ''15:00'', ''18:00'', ''20:00'']
      else [''08:00'', ''10:00'', ''12:00'', ''14:00'', ''16:00'', ''18:00'', ''20:00''])"
proof -
  have five: "timesForFrequency 5 = [''08:00'', ''11:00'', ''14:00'', ''17:00'', ''20:00'']"
    by code_simp
  have six: "timesForFrequency 6
      = [''08:00'', ''10:00'', ''13:00'', ''15:00'', ''18:00'', ''20:00'']"
    by code_simp
  have seven: "timesForFrequency 7
      = [''08:00'', ''10:00'', ''12:00'', ''14:00'', ''16:00'', ''18:00'', ''20:00'']"
    by code_simp
  from assms consider "f = 1" | "f = 2" | "f = 3" | "f = 4" | "f = 5" | "f = 6" | "f = 7"
    by linarith
  then show ?thesis
  proof cases
    case 5
    then show ?thesis by (simp add: five)
  next
    case 6
    then show ?thesis by (simp add: six)
  next
    case 7
    then show ?thesis by (simp add: seven)
  qed (simp_all add: timesForFrequency_def)
qed

text \<open>
  Claim C7, as the code has it. The claim has the frequency-derived time table returned
  on a chosen day. The projector hands the clamped frequency to the time-table helper:
  a weekly frequency of 10 yields the seven times of the table of 7, not the ten times
  the table gives for 10. Day 3 after the epoch is a Sunday; with seven doses a week
  every weekday is chosen.
\<close>

theorem weekly_table_is_clamped:
  "getMedicationSchedule (dayAt 3)
     (medOf [plainTiming\<lparr>frequency := Some 10, periodUnit := Some ''week''\<rparr>])
     (dayAt 3)
   = Some \<lparr>s_asNeeded = None, s_max = None,
       s_times = Some [''08:00'', ''10:00'', ''12:00'', ''14:00'', ''16:00'', ''18:00'',
         ''20:00''],
       s_doseAmount = 1, s_doseUnit = Some ''tablet'', s_source = Some Calculated,
       s_explicitWeekdays = None, s_timeCategories = None\<rparr> \<and>
   timesForFrequency 10
   = [''08:00'', ''09:00'', ''11:00'', ''12:00'', ''13:00'', ''15:00'', ''16:00'', ''17:00'',
      ''19:00'', ''20:00'']"
  by code_simp

text \<open>
  Claim C7, amended. Take a phase that passes the window check, is not as-needed, has
  no specific times, no time category that maps to a clock time, and a period unit that
  starts with "week". Let \<open>f\<close> be the frequency clamped to the range 1 to 7 (1 when it is
  absent). The projector answers exactly when
  \<open>floor((dayOffset - windowStart) / 7) mod max(1, period) = 0\<close> and the weekday of the
  target date is one of \<open>chosenWeekday i = (weekday of the regimen start +
  round(i * 7 / f)) mod 7\<close> for \<open>i\<close> from 0 to \<open>f - 1\<close>; these \<open>f\<close> weekdays are pairwise
  distinct. It then returns the time table of the clamped frequency \<open>f\<close>, written out
  below for each of its seven values, with source "calculated"; on every other day it
  returns \<open>null\<close>.
\<close>

theorem calculated_weekly_schedule:
  assumes "\<not> isAsNeeded timing"
    and "specificTimes timing = None \<or> specificTimes timing = Some []"
    and "timeCategories timing = None
         \<or> (\<exists>cats. timeCategories timing = Some cats \<and> mappedCategories cats = [])"
    and "periodUnit timing = Some pu" and "startsWith pu ''week''"
    and "inWindow dd ws timing"
  shows "(let f = min 7 (max 1 (case frequency timing of None \<Rightarrow> 1 | Some n \<Rightarrow> n));
              chosenWeekday = (\<lambda>i. (getDay sd + round (of_int i * 7 / of_int f :: rat)) mod 7)
          in scheduleLoop dd sd date ws (timing # rest) =
               (if ((dd - ws) div 7) mod max 1 (case period timing of None \<Rightarrow> 1 | Some p \<Rightarrow> p) = 0
                   \<and> getDay date \<in> chosenWeekday ` {0..f - 1}
                then Some \<lparr>s_asNeeded = None, s_max = None,
                       s_times = Some
                         (if f = 1 then [''08:00'']
                          else if f = 2 then [''08:00'', ''20:00'']
                          else if f = 3 then [''08:00'', ''14:00'', ''20:00'']
                          else if f = 4 then [''08:00'', ''12:00'', ''16:00'', ''20:00'']
                          else if f = 5 then
                            [''08:00'', ''11:00'', ''14:00'', ''17:00'', ''20:00'']
                          else if f = 6 then
                            [''08:00'', ''10:00'', ''13:00'', ''15:00'', ''18:00'', ''20:00'']
                          else
                            [''08:00'', ''10:00'', ''12:00'', ''14:00'', ''16:00'', ''18:00'',
                             ''20:00'']),
                       s_doseAmount = doseAmount timing, s_doseUnit = doseUnit timing,
                       s_source = Some Calculated, s_explicitWeekdays = None,
                       s_timeCategories = None\<rparr>
                else None)
             \<and> inj_on chosenWeekday {0..f - 1})"
proof -
  define f where "f = min 7 (max 1 (case frequency timing of None \<Rightarrow> 1 | Some n \<Rightarrow> n))"
  let ?n = "max 1 (case period timing of None \<Rightarrow> 1 | Some p \<Rightarrow> p)"
  let ?chosen = "\<lambda>i. (getDay sd + round (of_int i * 7 / of_int f :: rat)) mod 7"
  let ?table = "if f = 1 then [''08:00'']
      else if f = 2 then [''08:00'', ''20:00'']
      else if f = 3 then [''08:00'', ''14:00'', ''20:00'']
      else if f = 4 then [''08:00'', ''12:00'', ''16:00'', ''20:00'']
      else if f = 5 then [''08:00'', ''11:00'', ''14:00'', ''17:00'', ''20:00'']
      else if f = 6 then [''08:00'', ''10:00'', ''13:00'', ''15:00'', ''18:00'', ''20:00'']
      else [''08:00'', ''10:00'', ''12:00'', ''14:00'', ''16:00'', ''18:00'', ''20:00'']"
  have f: "1 \<le> f" "f \<le> 7"
    by (simp_all add: f_def)
  have table: "timesForFrequency f = ?table"
    using f by (rule timesForFrequency_week)
  have unit: "startsWith (toLowerCase (orStr (periodUnit timing) ''day'')) ''week''"
      "\<not> startsWith (toLowerCase (orStr (periodUnit timing) ''day'')) ''day''"
    using assms(4,5) by (simp_all add: startsWith_nonempty startsWith_week_lower)
  have off: "0 \<le> dd - ws"
    using assms(6) by (rule inWindow_offset)
  then have week: "0 \<le> (dd - ws) div 7"
    by simp
  have rem: "js_rem ((dd - ws) div 7) (max 1 (orNum (period timing) 1)) = ((dd - ws) div 7) mod ?n"
    using week by (simp add: js_rem_nonneg every_n)
  have chosen: "chosenLoop (getDay sd) f 0 {} = ?chosen ` {0..f - 1}"
    using f(1) getDay_range(1) by (rule chosenLoop_weekdays)
  have "scheduleLoop dd sd date ws (timing # rest) = timingSchedule dd sd date ws timing"
    using assms(6) by (rule scheduleLoop_inWindow)
  also have "\<dots> = calculatedSchedule dd sd date ws timing"
    using assms(1) no_usable_inputs [OF assms(2,3)] by (rule timingSchedule_calculated)
  also have "\<dots> =
     (if ((dd - ws) div 7) mod ?n = 0 \<and> getDay date \<in> ?chosen ` {0..f - 1}
      then Some \<lparr>s_asNeeded = None, s_max = None, s_times = Some (timesForFrequency f),
             s_doseAmount = doseAmount timing, s_doseUnit = doseUnit timing,
             s_source = Some Calculated, s_explicitWeekdays = None,
             s_timeCategories = None\<rparr>
      else None)"
    using off
    by (simp add: calculatedSchedule_def unit rem Let_def clamp_frequency
        f_def [symmetric] chosen)
  finally have run: "scheduleLoop dd sd date ws (timing # rest) =
     (if ((dd - ws) div 7) mod ?n = 0 \<and> getDay date \<in> ?chosen ` {0..f - 1}
      then Some \<lparr>s_asNeeded = None, s_max = None, s_times = Some ?table,
             s_doseAmount = doseAmount timing, s_doseUnit = doseUnit timing,
             s_source = Some Calculated, s_explicitWeekdays = None,
             s_timeCategories = None\<rparr>
      else None)"
    unfolding table .
  have "inj_on ?chosen {0..f - 1}"
    using f by (rule chosen_weekdays_distinct)
  with run show ?thesis
    unfolding Let_def f_def by blast
qed

theorem calculated_weekly_schedule_witness:
  "getDay (dayAt 3) = 0 \<and>
   scheduleLoop 2 (dayAt 3) (dayAt 5) 0
     [plainTiming\<lparr>frequency := Some 3, period := Some 2, periodUnit := Some ''week''\<rparr>]
   = Some \<lparr>s_asNeeded = None, s_max = None, s_times = Some [''08:00'', ''14:00'', ''20:00''],
       s_doseAmount = 1, s_doseUnit = Some ''tablet'', s_source = Some Calculated,
       s_explicitWeekdays = None, s_timeCategories = None\<rparr> \<and>
   scheduleLoop 1 (dayAt 3) (dayAt 4) 0
     [plainTiming\<lparr>frequency := Some 3, period := Some 2, periodUnit := Some ''week''\<rparr>]
   = None \<and>
   scheduleLoop 7 (dayAt 3) (dayAt 10) 0
     [plainTiming\<lparr>frequency := Some 3, period := Some 2, periodUnit := Some ''week''\<rparr>]
   = None \<and>
   scheduleLoop 19 (dayAt 3) (dayAt 22) 0
     [plainTiming\<lparr>frequency := Some 3, period := Some 2, periodUnit := Some ''week''\<rparr>]
   = Some \<lparr>s_asNeeded = None, s_max = None, s_times = Some [''08:00'', ''14:00'', ''20:00''],
       s_doseAmount = 1, s_doseUnit = Some ''tablet'', s_source = Some Calculated,
       s_explicitWeekdays = None, s_timeCategories = None\<rparr> \<and>
   scheduleLoop 3 (dayAt 3) (dayAt 6) 0
     [plainTiming\<lparr>frequency := Some 5, periodUnit := Some ''weeks''\<rparr>]
   = Some \<lparr>s_asNeeded = None, s_max = None,
       s_times = Some [''08:00'', ''11:00'', ''14:00'', ''17:00'', ''20:00''],
       s_doseAmount = 1, s_doseUnit = Some ''tablet'', s_source = Some Calculated,
       s_explicitWeekdays = None, s_timeCategories = None\<rparr> \<and>
   scheduleLoop 2 (dayAt 3) (dayAt 5) 0
     [plainTiming\<lparr>frequency := Some 5, periodUnit := Some ''weeks''\<rparr>]
   = None"
proof -
  let ?t = "plainTiming\<lparr>frequency := Some 3, period := Some 2, periodUnit := Some ''week''\<rparr>"
  let ?u = "plainTiming\<lparr>frequency := Some 5, periodUnit := Some ''weeks''\<rparr>"
  have h1: "\<not> isAsNeeded ?t"
    and h2: "specificTimes ?t = None \<or> specificTimes ?t = Some []"
    and h3: "timeCategories ?t = None
         \<or> (\<exists>cats. timeCategories ?t = Some cats \<and> mappedCategories cats = [])"
    and h4: "periodUnit ?t = Some ''week''"
    and h5: "startsWith ''week'' ''week''"
    by (simp_all add: plainTiming_def startsWith_def)
  have g1: "\<not> isAsNeeded ?u"
    and g2: "specificTimes ?u = None \<or> specificTimes ?u = Some []"
    and g3: "timeCategories ?u = None
         \<or> (\<exists>cats. timeCategories ?u = Some cats \<and> mappedCategories cats = [])"
    and g4: "periodUnit ?u = Some ''weeks''"
    and g5: "startsWith ''weeks'' ''week''"
    by (simp_all add: plainTiming_def startsWith_def)
  have w: "inWindow 2 0 ?t" "inWindow 1 0 ?t" "inWindow 7 0 ?t" "inWindow 19 0 ?t"
    by (simp_all add: inWindow_def plainTiming_def orNum_def)
  have v: "inWindow 3 0 ?u" "inWindow 2 0 ?u"
    by (simp_all add: inWindow_def plainTiming_def orNum_def)
  have range: "{0..2::int} = {0, 1, 2}" "{0..4::int} = {0, 1, 2, 3, 4}"
    by auto
  have offsets: "round (7 / 3 :: rat) = 2" "round (14 / 3 :: rat) = 5"
      "round (7 / 5 :: rat) = 1" "round (14 / 5 :: rat) = 3"
      "round (21 / 5 :: rat) = 4" "round (28 / 5 :: rat) = 6"
    by code_simp+
  show ?thesis
    using calculated_weekly_schedule [OF h1 h2 h3 h4 h5 w(1), of "dayAt 3" "dayAt 5" "[]"]
      calculated_weekly_schedule [OF h1 h2 h3 h4 h5 w(2), of "dayAt 3" "dayAt 4" "[]"]
      calculated_weekly_schedule [OF h1 h2 h3 h4 h5 w(3), of "dayAt 3" "dayAt 10" "[]"]
      calculated_weekly_schedule [OF h1 h2 h3 h4 h5 w(4), of "dayAt 3" "dayAt 22" "[]"]
      calculated_weekly_schedule [OF g1 g2 g3 g4 g5 v(1), of "dayAt 3" "dayAt 6" "[]"]
      calculated_weekly_schedule [OF g1 g2 g3 g4 g5 v(2), of "dayAt 3" "dayAt 5" "[]"]
    by (simp add: plainTiming_def getDay_dayAt Let_def range offsets)
qed

subsection \<open>A duration of zero\<close>

text \<open>
  Claim C8, as the code has it. The claim says that a phase of duration 0 is always
  skipped. The projector reads the duration as \<open>timing.duration || 0\<close> and tests it for
  \<open>> 0\<close>, so a duration of 0 takes the branch of a phase without duration: on day offset
  0 the occurrence comes from the zero-duration phase, not from the phase after it.
\<close>

theorem zero_duration_phase_fires:
  "getMedicationSchedule (dayAt 0)
     (medOf [plainTiming\<lparr>frequency := Some 1, duration := Some 0\<rparr>,
             plainTiming\<lparr>frequency := Some 2\<rparr>])
     (dayAt 0)
   = Some \<lparr>s_asNeeded = None, s_max = None, s_times = Some [''08:00''],
       s_doseAmount = 1, s_doseUnit = Some ''tablet'', s_source = Some Calculated,
       s_explicitWeekdays = None, s_timeCategories = None\<rparr>"
  by (simp add: getMedicationSchedule_def daysDiffOf_dayAt medOf_def plainTiming_def
      orNum_def orStr_def timingSchedule_def nonEmpty_def calculatedSchedule_def
      toLowerCase_def lowerChar_def startsWith_def js_rem_def timesForFrequency_def)

text \<open>
  Claim C8, amended. A phase whose duration equals 0 is treated as a phase without
  duration: it is skipped, with \<open>windowStart\<close> unchanged, exactly for the day offsets
  before \<open>windowStart\<close>; for every day offset from \<open>windowStart\<close> on, the occurrence is
  computed from that phase, and the result is the one the same phase would give with
  its duration removed.
\<close>

theorem zero_duration_is_open_ended:
  assumes "duration timing = Some 0"
  shows "scheduleLoop dd sd date ws (timing # rest) =
       (if dd < ws then scheduleLoop dd sd date ws rest
        else timingSchedule dd sd date ws timing) \<and>
     scheduleLoop dd sd date ws (timing # rest) =
       scheduleLoop dd sd date ws (timing\<lparr>duration := None\<rparr> # rest)"
  using assms by (simp add: orNum_def timingSchedule_duration)

theorem zero_duration_is_open_ended_witness:
  "duration (plainTiming\<lparr>frequency := Some 1, duration := Some 0\<rparr>) = Some 0 \<and>
   scheduleLoop 5 (dayAt 0) (dayAt 5) 0
     (plainTiming\<lparr>frequency := Some 1, duration := Some 0\<rparr> # [plainTiming\<lparr>frequency := Some 2\<rparr>])
   = timingSchedule 5 (dayAt 0) (dayAt 5) 0 (plainTiming\<lparr>frequency := Some 1, duration := Some 0\<rparr>)"
proof -
  have h: "duration (plainTiming\<lparr>frequency := Some 1, duration := Some 0\<rparr>) = Some 0"
    by (simp add: plainTiming_def)
  show ?thesis
    using h zero_duration_is_open_ended [OF h, of 5 "dayAt 0" "dayAt 5" 0
        "[plainTiming\<lparr>frequency := Some 2\<rparr>]"]
    by simp
qed

subsection \<open>The earlier copies disagree\<close>

text \<open>
  Claim C9. The duplicated copies of the projection logic are not equivalent: there is a
  medication whose first phase is bounded and a target date on which the copy with the
  \<open><=\<close> boundary check and the copy with the \<open>>=\<close> boundary check return different
  results. For a single phase of 7 days taken twice daily, on day offset 3, the
  \<open><=\<close> copy skips the phase and returns an empty list of times, while the \<open>>=\<close> copy
  takes the day as inside the phase and returns the twice-daily times; only the
  comparison differs on this path.
\<close>

theorem copies_not_equivalent:
  "\<exists>currentDate med date d.
     duration (hd (timingSequence med)) = Some d \<and> 0 < d \<and>
     getMedicationSchedule_le currentDate med date
       = Some \<lparr>asNeeded0 = None, max0 = None, times0 = Some []\<rparr> \<and>
     getMedicationSchedule_ge currentDate med date
       = Some \<lparr>asNeeded0 = None, max0 = None, times0 = Some [''08:00'', ''20:00'']\<rparr> \<and>
     getMedicationSchedule_le currentDate med date
       \<noteq> getMedicationSchedule_ge currentDate med date"
proof -
  let ?med = "medOf [plainTiming\<lparr>frequency := Some 2, duration := Some 7\<rparr>]"
  have a: "duration (hd (timingSequence ?med)) = Some 7"
    by (simp add: medOf_def plainTiming_def)
  have b: "getMedicationSchedule_le (dayAt 0) ?med (dayAt 3)
      = Some \<lparr>asNeeded0 = None, max0 = None, times0 = Some []\<rparr>"
    by (simp add: getMedicationSchedule_le_def daysDiffOf_dayAt medOf_def plainTiming_def
        truthy_def)
  have c: "getMedicationSchedule_ge (dayAt 0) ?med (dayAt 3)
      = Some \<lparr>asNeeded0 = None, max0 = None, times0 = Some [''08:00'', ''20:00'']\<rparr>"
    by (simp add: getMedicationSchedule_ge_def daysDiffOf_dayAt medOf_def plainTiming_def
        truthy_def orNum_def pushTimes_def)
  have d: "getMedicationSchedule_le (dayAt 0) ?med (dayAt 3)
      \<noteq> getMedicationSchedule_ge (dayAt 0) ?med (dayAt 3)"
    unfolding b c by simp
  from a b c d show ?thesis
    by (intro exI [of _ "dayAt 0"] exI [of _ ?med] exI [of _ "dayAt 3"] exI [of _ 7]) simp
qed

subsection \<open>A scheduled occurrence has a time\<close>

text \<open>
  Claim C10. For every medication and every date, whenever the projector returns a
  schedule that is not as-needed, the schedule has a list of times and the list is not
  empty. The induction follows the walk over the timing sequence: a skipped phase
  contributes nothing, and the phase that answers does so through one of the three
  branches, each of which yields at least one time.
\<close>

theorem scheduled_times_nonempty:
  assumes "getMedicationSchedule currentDate med date = Some s"
    and "s_asNeeded s \<noteq> Some True"
  shows "\<exists>ts. s_times s = Some ts \<and> ts \<noteq> []"
proof -
  have loop: "scheduleLoop dd sd date ws timings = Some s \<Longrightarrow>
      \<exists>ts. s_times s = Some ts \<and> ts \<noteq> []" for dd sd ws timings
  proof (induction timings arbitrary: ws)
    case Nil
    then show ?case by simp
  next
    case (Cons timing rest)
    show ?case
    proof (cases "inWindow dd ws timing")
      case True
      from Cons.prems have "timingSchedule dd sd date ws timing = Some s"
        by (simp only: scheduleLoop_inWindow [OF True])
      then show ?thesis
        using assms(2) by (rule timingSchedule_times)
    next
      case False
      from Cons.prems
      have "scheduleLoop dd sd date (ws + orNum (duration timing) 0) rest = Some s"
        by (simp only: scheduleLoop_skip [OF False])
      then show ?thesis
        by (rule Cons.IH)
    qed
  qed
  from assms(1) show ?thesis
    unfolding getMedicationSchedule_loop by (rule loop)
qed

theorem scheduled_times_nonempty_witness:
  "getMedicationSchedule (dayAt 0) (medOf [plainTiming\<lparr>frequency := Some 6\<rparr>]) (dayAt 2)
   = Some \<lparr>s_asNeeded = None, s_max = None,
       s_times = Some [''08:00'', ''10:00'', ''13:00'', ''15:00'', ''18:00'', ''20:00''],
       s_doseAmount = 1, s_doseUnit = Some ''tablet'', s_source = Some Calculated,
       s_explicitWeekdays = None, s_timeCategories = None\<rparr> \<and>
   (\<exists>ts. s_times \<lparr>s_asNeeded = None, s_max = None,
       s_times = Some [''08:00'', ''10:00'', ''13:00'', ''15:00'', ''18:00'', ''20:00''],
       s_doseAmount = 1, s_doseUnit = Some ''tablet'', s_source = Some Calculated,
       s_explicitWeekdays = None, s_timeCategories = None\<rparr> = Some ts \<and> ts \<noteq> [])"
proof -
  have six: "timesForFrequency 6 = [''08:00'', ''10:00'', ''13:00'', ''15:00'', ''18:00'', ''20:00'']"
    by code_simp
  have run: "getMedicationSchedule (dayAt 0) (medOf [plainTiming\<lparr>frequency := Some 6\<rparr>]) (dayAt 2)
    = Some \<lparr>s_asNeeded = None, s_max = None,
       s_times = Some [''08:00'', ''10:00'', ''13:00'', ''15:00'', ''18:00'', ''20:00''],
       s_doseAmount = 1, s_doseUnit = Some ''tablet'', s_source = Some Calculated,
       s_explicitWeekdays = None, s_timeCategories = None\<rparr>"
    by (simp add: getMedicationSchedule_loop daysDiffOf_dayAt medOf_def plainTiming_def
        orNum_def orStr_def timingSchedule_def nonEmpty_def calculatedSchedule_def
        toLowerCase_day startsWith_def js_rem_def six)
  show ?thesis
    using run scheduled_times_nonempty [OF run] by simp
qed

end
